theory Spec2Isabelle
  imports Main "HOL-Library.Sublist"
begin

section \<open>The event store of the Cucumber adapter (scenario-storage.ts)\<close>

text \<open>
  The class \<open>Storage\<close> keeps the messages of one Cucumber run in seven arrays and three
  objects used as dictionaries, and assembles a \<open>TestResult\<close> for a test case on demand.
  Each method of the class is a function of this theory that takes the store and returns
  what the method returns; a method that writes returns the new store. A \<open>throw\<close> is the
  left side of a sum. The queries are given a second time as methods that also return
  the store they leave, and a call of any method is a step of the store.

  Conventions of the model:
  \<^item> A JavaScript number that holds seconds is an \<open>int\<close>; the subtraction of two such
    numbers is exact below \<open>2^53\<close>, the range in which epoch seconds live.
  \<^item> A field that may be \<open>undefined\<close> is an \<open>option\<close>.
  \<^item> The dictionaries are maps from the case identifier. The identifiers are the ones
    Cucumber generates, so a key is taken never to be the name of a member that a
    JavaScript object inherits (for instance \<open>constructor\<close>).
  \<^item> Of the messages of \<open>@cucumber/messages\<close> only the fields that \<open>Storage\<close> reads are
    kept, together with the identifiers that tell two messages apart.
  \<^item> \<open>addLinks\<close> keeps the very array it is given and later pushes into it, so arrays of
    links live in an explicit heap and the dictionary holds references.
\<close>

subsection \<open>Messages\<close>

record timestamp =
  seconds :: int
  nanos :: int

datatype testStepResultStatus =
  UNKNOWN | PASSED | SKIPPED | PENDING | UNDEFINED | AMBIGUOUS | FAILED

record testStepResult =
  tsr_duration :: timestamp
  tsr_status :: testStepResultStatus
  tsr_message :: "string option"

record gherkinDocument =
  gd_uri :: "string option"

record pickleTag =
  tag_name :: string
  tag_astNodeId :: string

record pickleStep =
  ps_id :: string
  ps_text :: string

record pickle =
  p_id :: string
  p_name :: string
  p_steps :: "pickleStep list"
  p_tags :: "pickleTag list"

record testStep =
  ts_id :: string
  ts_pickleStepId :: "string option"

record testCase =
  tc_id :: string
  tc_pickleId :: string
  tc_testSteps :: "testStep list"

record testCaseStarted =
  tcs_id :: string
  tcs_testCaseId :: string
  tcs_timestamp :: timestamp

record testCaseFinished =
  tcf_testCaseStartedId :: string
  tcf_timestamp :: timestamp

record testStepStarted =
  tss_testCaseStartedId :: string
  tss_testStepId :: string
  tss_timestamp :: timestamp

record testStepFinished =
  tsf_testCaseStartedId :: string
  tsf_testStepId :: string
  tsf_testStepResult :: testStepResult
  tsf_timestamp :: timestamp

subsection \<open>Results\<close>

text \<open>
  \<open>'l\<close> is the type \<open>Link\<close> of testit-js-commons and \<open>'d\<close> the type that \<open>mapDate\<close>
  returns; \<open>Storage\<close> looks into neither. An outcome is the string that \<open>mapStatus\<close>
  returns, since the filter of \<open>getTestResult\<close> compares it with string literals.
  The fields \<open>resultLinks\<close> and \<open>attachments\<close> of a result hold the content the stored
  arrays have when the result is assembled.
\<close>

record attachment =
  att_id :: string

record 'd testResultStep =
  title :: string
  startedOn :: 'd
  duration :: int
  completedOn :: 'd
  outcome :: string

record ('l, 'd) testResult =
  r_externalId :: string
  r_displayName :: string
  r_links :: "'l list"
  r_resultLinks :: "'l list"
  r_stepResults :: "'d testResultStep list"
  r_outcome :: string
  r_startedOn :: 'd
  r_completedOn :: 'd
  r_duration :: int
  r_message :: "string option"
  r_traces :: string
  r_attachments :: "attachment list option"

subsection \<open>Collaborators\<close>

text \<open>
  \<open>parseTags\<close> (tags-parser), \<open>mapStatus\<close> and \<open>mapDate\<close> (scenario-parser) and
  \<open>calculateResultOutcome\<close> (testit-js-commons) are imported by the file and are
  parameters here: every theorem holds for whatever total functions they are. They
  are functions of their argument alone: they have no access to the fields of the store
  and are taken not to write into the array they are given.
\<close>

record 'l parsedTags =
  externalId :: "string option"
  name :: "string option"
  links :: "'l list"

record ('l, 'd) collaborators =
  parseTags :: "pickleTag list \<Rightarrow> 'l parsedTags"
  mapStatus :: "testStepResultStatus \<Rightarrow> string"
  mapDate :: "int \<Rightarrow> 'd"
  calculateResultOutcome :: "string list \<Rightarrow> string"

subsection \<open>The store\<close>

type_synonym ref = nat

record 'l storage =
  gherkinDocuments :: "gherkinDocument list"
  pickles :: "pickle list"
  testCases :: "testCase list"
  testCasesStarted :: "testCaseStarted list"
  testCasesFinished :: "testCaseFinished list"
  testStepsStarted :: "testStepStarted list"
  testStepsFinished :: "testStepFinished list"
  messages :: "string \<rightharpoonup> string list"
  resultLinks :: "string \<rightharpoonup> ref"
  attachments :: "string \<rightharpoonup> attachment list"
  linkArrays :: "ref \<Rightarrow> 'l list"

text \<open>
  \<open>linkArrays\<close> is the heap of \<open>Link[]\<close> arrays: the content of every array a caller
  may hand to \<open>addLinks\<close>, by reference. A new \<open>Storage\<close> has empty arrays and
  dictionaries; the heap is the caller's.
\<close>

definition newStorage :: "(ref \<Rightarrow> 'l list) \<Rightarrow> 'l storage" where
  "newStorage h =
     \<lparr> gherkinDocuments = [], pickles = [], testCases = [], testCasesStarted = [],
       testCasesFinished = [], testStepsStarted = [], testStepsFinished = [],
       messages = Map.empty, resultLinks = Map.empty, attachments = Map.empty,
       linkArrays = h \<rparr>"

datatype error =
    TestCaseNotFound           \<comment> \<open>\<open>'TestCase not found'\<close>\<close>
  | PickleNotFound             \<comment> \<open>\<open>'Pickle not found'\<close>\<close>
  | ExternalIdNotProvided      \<comment> \<open>\<open>'External ID is not provided'\<close>\<close>
  | TestCaseStartedNotFound    \<comment> \<open>\<open>'TestCaseStarted not found'\<close>\<close>
  | TestCaseFinishedNotFound   \<comment> \<open>\<open>'TestCaseFinished not found'\<close>\<close>
  | TestCaseStepNotFound       \<comment> \<open>\<open>'TestCase step not found'\<close>\<close>
  | TestStepStartedNotFound    \<comment> \<open>\<open>'TestStepStarted not found'\<close>\<close>
  | TestStepFinishedNotFound   \<comment> \<open>\<open>'TestStepFinished not found'\<close>\<close>

subsection \<open>Ingestion\<close>

definition saveGherkinDocument :: "'l storage \<Rightarrow> gherkinDocument \<Rightarrow> 'l storage" where
  "saveGherkinDocument st document = st\<lparr>gherkinDocuments := gherkinDocuments st @ [document]\<rparr>"

definition savePickle :: "'l storage \<Rightarrow> pickle \<Rightarrow> 'l storage" where
  "savePickle st p = st\<lparr>pickles := pickles st @ [p]\<rparr>"

definition saveTestCase :: "'l storage \<Rightarrow> testCase \<Rightarrow> 'l storage" where
  "saveTestCase st tc = st\<lparr>testCases := testCases st @ [tc]\<rparr>"

definition saveTestCaseStarted :: "'l storage \<Rightarrow> testCaseStarted \<Rightarrow> 'l storage" where
  "saveTestCaseStarted st s = st\<lparr>testCasesStarted := testCasesStarted st @ [s]\<rparr>"

definition saveTestCaseFinished :: "'l storage \<Rightarrow> testCaseFinished \<Rightarrow> 'l storage" where
  "saveTestCaseFinished st f = st\<lparr>testCasesFinished := testCasesFinished st @ [f]\<rparr>"

definition saveTestStepStarted :: "'l storage \<Rightarrow> testStepStarted \<Rightarrow> 'l storage" where
  "saveTestStepStarted st s = st\<lparr>testStepsStarted := testStepsStarted st @ [s]\<rparr>"

definition saveTestStepFinished :: "'l storage \<Rightarrow> testStepFinished \<Rightarrow> 'l storage" where
  "saveTestStepFinished st f = st\<lparr>testStepsFinished := testStepsFinished st @ [f]\<rparr>"

subsection \<open>Accumulators\<close>

definition addMessage :: "'l storage \<Rightarrow> string \<Rightarrow> string \<Rightarrow> 'l storage" where
  "addMessage st testCaseId message =
     (case messages st testCaseId of
        None \<Rightarrow> st\<lparr>messages := (messages st)(testCaseId \<mapsto> [message])\<rparr>
      | Some ms \<Rightarrow> st\<lparr>messages := (messages st)(testCaseId \<mapsto> ms @ [message])\<rparr>)"

text \<open>
  \<open>addLinks\<close> stores the reference it is given on first use; afterwards it pushes the
  elements of the given array into the stored one (the spread is evaluated before the
  push, so pushing an array into itself doubles it).
\<close>

definition addLinks :: "'l storage \<Rightarrow> string \<Rightarrow> ref \<Rightarrow> 'l storage" where
  "addLinks st testCaseId ls =
     (case resultLinks st testCaseId of
        None \<Rightarrow> st\<lparr>resultLinks := (resultLinks st)(testCaseId \<mapsto> ls)\<rparr>
      | Some a \<Rightarrow> st\<lparr>linkArrays := (linkArrays st)(a := linkArrays st a @ linkArrays st ls)\<rparr>)"

text \<open>
  In the second branch of \<open>addAttachment\<close> the source calls \<open>concat\<close>, which builds a new
  array and leaves the stored one as it is; the new array is dropped.
\<close>

definition addAttachment :: "'l storage \<Rightarrow> string \<Rightarrow> string \<Rightarrow> 'l storage" where
  "addAttachment st testCaseId attachmentId =
     (let attachment = \<lparr>att_id = attachmentId\<rparr> in
      case attachments st testCaseId of
        None \<Rightarrow> st\<lparr>attachments := (attachments st)(testCaseId \<mapsto> [attachment])\<rparr>
      | Some as \<Rightarrow> st)"

subsection \<open>Queries\<close>

fun isResolvedLoop :: "('l, 'd) collaborators \<Rightarrow> testCase \<Rightarrow> pickle list \<Rightarrow> bool" where
  "isResolvedLoop c tc [] = False"
| "isResolvedLoop c tc (p # ps) =
     (let tags = parseTags c (p_tags p) in
      if externalId tags \<noteq> None \<and> tc_pickleId tc = p_id p then True
      else isResolvedLoop c tc ps)"

definition isResolvedTestCase :: "('l, 'd) collaborators \<Rightarrow> 'l storage \<Rightarrow> testCase \<Rightarrow> bool" where
  "isResolvedTestCase c st tc = isResolvedLoop c tc (pickles st)"

definition getStepResult ::
  "('l, 'd) collaborators \<Rightarrow> 'l storage \<Rightarrow> pickleStep \<Rightarrow> testCase \<Rightarrow> error + 'd testResultStep" where
  "getStepResult c st pickleStep tc =
     (case find (\<lambda>step. ts_pickleStepId step = Some (ps_id pickleStep)) (tc_testSteps tc) of
        None \<Rightarrow> Inl TestCaseStepNotFound
      | Some testStep \<Rightarrow>
     (case find (\<lambda>step. tss_testStepId step = ts_id testStep) (testStepsStarted st) of
        None \<Rightarrow> Inl TestStepStartedNotFound
      | Some started \<Rightarrow>
     (case find (\<lambda>step. tsf_testStepId step = tss_testStepId started) (testStepsFinished st) of
        None \<Rightarrow> Inl TestStepFinishedNotFound
      | Some finished \<Rightarrow>
          Inr \<lparr> title = ps_text pickleStep,
                startedOn = mapDate c (seconds (tss_timestamp started)),
                duration = seconds (tsr_duration (tsf_testStepResult finished)),
                completedOn = mapDate c (seconds (tsf_timestamp finished)),
                outcome = mapStatus c (tsr_status (tsf_testStepResult finished)) \<rparr>)))"

definition getStepMessage :: "'l storage \<Rightarrow> pickleStep \<Rightarrow> testCase \<Rightarrow> error + string option" where
  "getStepMessage st pickleStep tc =
     (case find (\<lambda>step. ts_pickleStepId step = Some (ps_id pickleStep)) (tc_testSteps tc) of
        None \<Rightarrow> Inl TestCaseStepNotFound
      | Some testStep \<Rightarrow>
     (case find (\<lambda>step. tss_testStepId step = ts_id testStep) (testStepsStarted st) of
        None \<Rightarrow> Inl TestStepStartedNotFound
      | Some started \<Rightarrow>
     (case find (\<lambda>step. tsf_testStepId step = tss_testStepId started) (testStepsFinished st) of
        None \<Rightarrow> Inl TestStepFinishedNotFound
      | Some finished \<Rightarrow> Inr (tsr_message (tsf_testStepResult finished)))))"

definition getAttachments :: "'l storage \<Rightarrow> string \<Rightarrow> attachment list option" where
  "getAttachments st testCaseId =
     (if attachments st testCaseId = None then None else attachments st testCaseId)"

subsection \<open>Assembling a result\<close>

text \<open>\<open>pickle.steps.map(...)\<close>: the first step that throws ends the whole call.\<close>

fun mapSteps ::
  "('l, 'd) collaborators \<Rightarrow> 'l storage \<Rightarrow> testCase \<Rightarrow> pickleStep list \<Rightarrow> error + 'd testResultStep list" where
  "mapSteps c st tc [] = Inr []"
| "mapSteps c st tc (s # ss) =
     (case getStepResult c st s tc of
        Inl e \<Rightarrow> Inl e
      | Inr r \<Rightarrow> (case mapSteps c st tc ss of Inl e \<Rightarrow> Inl e | Inr rs \<Rightarrow> Inr (r # rs)))"

text \<open>
  The callback of \<open>.filter((item, i, arr) => ...)\<close>: \<open>arr\<close> is the array being filtered,
  \<open>arr[i - 1]\<close> is \<open>undefined\<close> at \<open>i = 0\<close>, and the element is dropped when the callback
  returns \<open>false\<close>.
\<close>

definition keepStep :: "'d testResultStep list \<Rightarrow> nat \<Rightarrow> bool" where
  "keepStep arr i =
     (let item = arr ! i;
          prevOutcome = (if i = 0 then None else Some (outcome (arr ! (i - 1))))
      in if outcome item = ''Skipped'' \<and> prevOutcome \<noteq> None \<and>
            (case prevOutcome of None \<Rightarrow> False | Some po \<Rightarrow> po \<in> set [''Failed'', ''Skipped''])
         then False else True)"

definition skipFilter :: "'d testResultStep list \<Rightarrow> 'd testResultStep list" where
  "skipFilter arr = map (\<lambda>i. arr ! i) (filter (keepStep arr) [0..<length arr])"

text \<open>The loop that collects the messages of the steps, skipping the undefined ones.\<close>

fun stepMessages ::
  "'l storage \<Rightarrow> testCase \<Rightarrow> pickleStep list \<Rightarrow> string list \<Rightarrow> error + string list" where
  "stepMessages st tc [] acc = Inr acc"
| "stepMessages st tc (s # ss) acc =
     (case getStepMessage st s tc of
        Inl e \<Rightarrow> Inl e
      | Inr None \<Rightarrow> stepMessages st tc ss acc
      | Inr (Some m) \<Rightarrow> stepMessages st tc ss (acc @ [m]))"

text \<open>\<open>Array.prototype.join\<close> on an array of strings.\<close>

fun join :: "string \<Rightarrow> string list \<Rightarrow> string" where
  "join sep [] = []"
| "join sep [x] = x"
| "join sep (x # y # ys) = x @ sep @ join sep (y # ys)"

definition blankLine :: string where
  "blankLine = [CHR 0x0A, CHR 0x0A]"

text \<open>
  In \<open>getTestResult\<close> the callback that looks for the \<open>TestCaseStarted\<close> names its
  parameter \<open>testCase\<close> and compares \<open>testCase.id\<close> with \<open>testCase.id\<close>: both sides are
  the candidate, so the predicate of the model is \<open>tcs_id s = tcs_id s\<close>.
\<close>

definition getTestResult ::
  "('l, 'd) collaborators \<Rightarrow> 'l storage \<Rightarrow> string \<Rightarrow> error + ('l, 'd) testResult" where
  "getTestResult c st testId =
     (case find (\<lambda>tc. tc_id tc = testId) (testCases st) of
        None \<Rightarrow> Inl TestCaseNotFound
      | Some tc \<Rightarrow>
     (case find (\<lambda>p. p_id p = tc_pickleId tc) (pickles st) of
        None \<Rightarrow> Inl PickleNotFound
      | Some p \<Rightarrow>
     (let tags = parseTags c (p_tags p) in
      case externalId tags of
        None \<Rightarrow> Inl ExternalIdNotProvided
      | Some ext \<Rightarrow>
     (case find (\<lambda>s. tcs_id s = tcs_id s) (testCasesStarted st) of
        None \<Rightarrow> Inl TestCaseStartedNotFound
      | Some started \<Rightarrow>
     (case find (\<lambda>f. tcf_testCaseStartedId f = tcs_id started) (testCasesFinished st) of
        None \<Rightarrow> Inl TestCaseFinishedNotFound
      | Some finished \<Rightarrow>
     (case mapSteps c st tc (p_steps p) of
        Inl e \<Rightarrow> Inl e
      | Inr mapped \<Rightarrow>
     (let steps = skipFilter mapped in
      case stepMessages st tc (p_steps p) [] of
        Inl e \<Rightarrow> Inl e
      | Inr msgs \<Rightarrow>
     (let rl = (case resultLinks st (tc_id tc) of None \<Rightarrow> [] | Some a \<Rightarrow> linkArrays st a) in
      Inr \<lparr> r_externalId = ext,
            r_displayName = (case name tags of None \<Rightarrow> p_name p | Some n \<Rightarrow> n),
            r_links = links tags,
            r_resultLinks = rl,
            r_stepResults = steps,
            r_outcome = calculateResultOutcome c (map outcome steps),
            r_startedOn = mapDate c (seconds (tcs_timestamp started)),
            r_completedOn = mapDate c (seconds (tcf_timestamp finished)),
            r_duration = seconds (tcf_timestamp finished) - seconds (tcs_timestamp started),
            r_message = map_option (join blankLine) (messages st (tc_id tc)),
            r_traces = join blankLine msgs,
            r_attachments = getAttachments st (tc_id tc) \<rparr>))))))))"

subsection \<open>The queries as methods: the store as a result\<close>

text \<open>
  The same five methods once more, statement by statement, with the store they leave as
  a second result. A statement that calls a method of the store runs on the store the
  statement before it left, and a \<open>throw\<close> leaves the store of the point where it is
  thrown. The loops thread the store through their iterations: \<open>mapSteps_st\<close> is the
  \<open>.map\<close> whose callback calls \<open>this.getStepResult\<close>, \<open>stepMessages_st\<close> the \<open>for\<close> loop
  that calls \<open>this.getStepMessage\<close>.
\<close>

fun isResolvedLoop_st ::
  "('l, 'd) collaborators \<Rightarrow> testCase \<Rightarrow> pickle list \<Rightarrow> 'l storage \<Rightarrow> bool \<times> 'l storage" where
  "isResolvedLoop_st c tc [] st = (False, st)"
| "isResolvedLoop_st c tc (p # ps) st =
     (let tags = parseTags c (p_tags p) in
      if externalId tags \<noteq> None \<and> tc_pickleId tc = p_id p then (True, st)
      else isResolvedLoop_st c tc ps st)"

definition isResolvedTestCase_st ::
  "('l, 'd) collaborators \<Rightarrow> testCase \<Rightarrow> 'l storage \<Rightarrow> bool \<times> 'l storage" where
  "isResolvedTestCase_st c tc st = isResolvedLoop_st c tc (pickles st) st"

definition getStepResult_st ::
  "('l, 'd) collaborators \<Rightarrow> pickleStep \<Rightarrow> testCase \<Rightarrow> 'l storage
     \<Rightarrow> (error + 'd testResultStep) \<times> 'l storage" where
  "getStepResult_st c pickleStep tc st =
     (case find (\<lambda>step. ts_pickleStepId step = Some (ps_id pickleStep)) (tc_testSteps tc) of
        None \<Rightarrow> (Inl TestCaseStepNotFound, st)
      | Some testStep \<Rightarrow>
     (case find (\<lambda>step. tss_testStepId step = ts_id testStep) (testStepsStarted st) of
        None \<Rightarrow> (Inl TestStepStartedNotFound, st)
      | Some started \<Rightarrow>
     (case find (\<lambda>step. tsf_testStepId step = tss_testStepId started) (testStepsFinished st) of
        None \<Rightarrow> (Inl TestStepFinishedNotFound, st)
      | Some finished \<Rightarrow>
          (Inr \<lparr> title = ps_text pickleStep,
                 startedOn = mapDate c (seconds (tss_timestamp started)),
                 duration = seconds (tsr_duration (tsf_testStepResult finished)),
                 completedOn = mapDate c (seconds (tsf_timestamp finished)),
                 outcome = mapStatus c (tsr_status (tsf_testStepResult finished)) \<rparr>, st))))"

definition getStepMessage_st ::
  "pickleStep \<Rightarrow> testCase \<Rightarrow> 'l storage \<Rightarrow> (error + string option) \<times> 'l storage" where
  "getStepMessage_st pickleStep tc st =
     (case find (\<lambda>step. ts_pickleStepId step = Some (ps_id pickleStep)) (tc_testSteps tc) of
        None \<Rightarrow> (Inl TestCaseStepNotFound, st)
      | Some testStep \<Rightarrow>
     (case find (\<lambda>step. tss_testStepId step = ts_id testStep) (testStepsStarted st) of
        None \<Rightarrow> (Inl TestStepStartedNotFound, st)
      | Some started \<Rightarrow>
     (case find (\<lambda>step. tsf_testStepId step = tss_testStepId started) (testStepsFinished st) of
        None \<Rightarrow> (Inl TestStepFinishedNotFound, st)
      | Some finished \<Rightarrow> (Inr (tsr_message (tsf_testStepResult finished)), st))))"

definition getAttachments_st ::
  "string \<Rightarrow> 'l storage \<Rightarrow> attachment list option \<times> 'l storage" where
  "getAttachments_st testCaseId st =
     (if attachments st testCaseId = None then (None, st) else (attachments st testCaseId, st))"

fun mapSteps_st ::
  "('l, 'd) collaborators \<Rightarrow> testCase \<Rightarrow> pickleStep list \<Rightarrow> 'l storage
     \<Rightarrow> (error + 'd testResultStep list) \<times> 'l storage" where
  "mapSteps_st c tc [] st = (Inr [], st)"
| "mapSteps_st c tc (s # ss) st =
     (case getStepResult_st c s tc st of
        (Inl e, st1) \<Rightarrow> (Inl e, st1)
      | (Inr r, st1) \<Rightarrow>
          (case mapSteps_st c tc ss st1 of
             (Inl e, st2) \<Rightarrow> (Inl e, st2)
           | (Inr rs, st2) \<Rightarrow> (Inr (r # rs), st2)))"

fun stepMessages_st ::
  "testCase \<Rightarrow> pickleStep list \<Rightarrow> string list \<Rightarrow> 'l storage
     \<Rightarrow> (error + string list) \<times> 'l storage" where
  "stepMessages_st tc [] acc st = (Inr acc, st)"
| "stepMessages_st tc (s # ss) acc st =
     (case getStepMessage_st s tc st of
        (Inl e, st1) \<Rightarrow> (Inl e, st1)
      | (Inr None, st1) \<Rightarrow> stepMessages_st tc ss acc st1
      | (Inr (Some m), st1) \<Rightarrow> stepMessages_st tc ss (acc @ [m]) st1)"

definition getTestResult_st ::
  "('l, 'd) collaborators \<Rightarrow> string \<Rightarrow> 'l storage
     \<Rightarrow> (error + ('l, 'd) testResult) \<times> 'l storage" where
  "getTestResult_st c testId st =
     (case find (\<lambda>tc. tc_id tc = testId) (testCases st) of
        None \<Rightarrow> (Inl TestCaseNotFound, st)
      | Some tc \<Rightarrow>
     (case find (\<lambda>p. p_id p = tc_pickleId tc) (pickles st) of
        None \<Rightarrow> (Inl PickleNotFound, st)
      | Some p \<Rightarrow>
     (let tags = parseTags c (p_tags p) in
      case externalId tags of
        None \<Rightarrow> (Inl ExternalIdNotProvided, st)
      | Some ext \<Rightarrow>
     (case find (\<lambda>s. tcs_id s = tcs_id s) (testCasesStarted st) of
        None \<Rightarrow> (Inl TestCaseStartedNotFound, st)
      | Some started \<Rightarrow>
     (case find (\<lambda>f. tcf_testCaseStartedId f = tcs_id started) (testCasesFinished st) of
        None \<Rightarrow> (Inl TestCaseFinishedNotFound, st)
      | Some finished \<Rightarrow>
     (case mapSteps_st c tc (p_steps p) st of
        (Inl e, st1) \<Rightarrow> (Inl e, st1)
      | (Inr mapped, st1) \<Rightarrow>
     (let steps = skipFilter mapped in
      case stepMessages_st tc (p_steps p) [] st1 of
        (Inl e, st2) \<Rightarrow> (Inl e, st2)
      | (Inr msgs, st2) \<Rightarrow>
     (let rl = (case resultLinks st2 (tc_id tc) of None \<Rightarrow> [] | Some a \<Rightarrow> linkArrays st2 a);
          message = map_option (join blankLine) (messages st2 (tc_id tc))
      in case getAttachments_st (tc_id tc) st2 of
        (atts, st3) \<Rightarrow>
      (Inr \<lparr> r_externalId = ext,
             r_displayName = (case name tags of None \<Rightarrow> p_name p | Some n \<Rightarrow> n),
             r_links = links tags,
             r_resultLinks = rl,
             r_stepResults = steps,
             r_outcome = calculateResultOutcome c (map outcome steps),
             r_startedOn = mapDate c (seconds (tcs_timestamp started)),
             r_completedOn = mapDate c (seconds (tcf_timestamp finished)),
             r_duration = seconds (tcf_timestamp finished) - seconds (tcs_timestamp started),
             r_message = message,
             r_traces = join blankLine msgs,
             r_attachments = atts \<rparr>, st3)))))))))"

subsection \<open>Method calls as steps of the store\<close>

text \<open>
  A call of a method is a step from a store to what the method returns and the store it
  leaves: for a method that writes, the store it has written; for a query, the store
  its statements have threaded to the end or to the \<open>throw\<close>.
\<close>

datatype call =
    SaveGherkinDocument gherkinDocument
  | SavePickle pickle
  | SaveTestCase testCase
  | SaveTestCaseStarted testCaseStarted
  | SaveTestCaseFinished testCaseFinished
  | SaveTestStepStarted testStepStarted
  | SaveTestStepFinished testStepFinished
  | AddMessage string string
  | AddLinks string ref
  | AddAttachment string string
  | IsResolvedTestCase testCase
  | GetTestResult string
  | GetStepResult pickleStep testCase
  | GetStepMessage pickleStep testCase
  | GetAttachments string

datatype ('l, 'd) returned =
    Void
  | Boolean bool
  | Result "('l, 'd) testResult"
  | StepResult "'d testResultStep"
  | StepMessage "string option"
  | AttachmentList "attachment list option"
  | Thrown error

definition orThrown :: "('a \<Rightarrow> ('l, 'd) returned) \<Rightarrow> error + 'a \<Rightarrow> ('l, 'd) returned" where
  "orThrown k r = (case r of Inl e \<Rightarrow> Thrown e | Inr v \<Rightarrow> k v)"

fun step :: "('l, 'd) collaborators \<Rightarrow> call \<Rightarrow> 'l storage \<Rightarrow> ('l, 'd) returned \<times> 'l storage" where
  "step c (SaveGherkinDocument d) st = (Void, saveGherkinDocument st d)"
| "step c (SavePickle p) st = (Void, savePickle st p)"
| "step c (SaveTestCase tc) st = (Void, saveTestCase st tc)"
| "step c (SaveTestCaseStarted s) st = (Void, saveTestCaseStarted st s)"
| "step c (SaveTestCaseFinished f) st = (Void, saveTestCaseFinished st f)"
| "step c (SaveTestStepStarted s) st = (Void, saveTestStepStarted st s)"
| "step c (SaveTestStepFinished f) st = (Void, saveTestStepFinished st f)"
| "step c (AddMessage k m) st = (Void, addMessage st k m)"
| "step c (AddLinks k ls) st = (Void, addLinks st k ls)"
| "step c (AddAttachment k a) st = (Void, addAttachment st k a)"
| "step c (IsResolvedTestCase tc) st =
     (case isResolvedTestCase_st c tc st of (b, st') \<Rightarrow> (Boolean b, st'))"
| "step c (GetTestResult k) st =
     (case getTestResult_st c k st of (r, st') \<Rightarrow> (orThrown Result r, st'))"
| "step c (GetStepResult s tc) st =
     (case getStepResult_st c s tc st of (r, st') \<Rightarrow> (orThrown StepResult r, st'))"
| "step c (GetStepMessage s tc) st =
     (case getStepMessage_st s tc st of (r, st') \<Rightarrow> (orThrown StepMessage r, st'))"
| "step c (GetAttachments k) st =
     (case getAttachments_st k st of (r, st') \<Rightarrow> (AttachmentList r, st'))"

fun run :: "('l, 'd) collaborators \<Rightarrow> call list \<Rightarrow> 'l storage \<Rightarrow> 'l storage" where
  "run c [] st = st"
| "run c (x # xs) st = run c xs (snd (step c x st))"

text \<open>The sequence of links stored under a case identifier: the content of the array
  the dictionary refers to.\<close>

definition linksOf :: "'l storage \<Rightarrow> string \<rightharpoonup> 'l list" where
  "linksOf st k = map_option (linkArrays st) (resultLinks st k)"

text \<open>A dictionary of sequences has only grown: every entry is still there, and the
  sequence it held is a prefix of the one it holds.\<close>

definition grownFrom :: "('k \<rightharpoonup> 'a list) \<Rightarrow> ('k \<rightharpoonup> 'a list) \<Rightarrow> bool" where
  "grownFrom m m' \<longleftrightarrow> (\<forall>k xs. m k = Some xs \<longrightarrow> (\<exists>ys. m' k = Some ys \<and> prefix xs ys))"

subsection \<open>The cascading-skip filter as the specification words it\<close>

text \<open>
  Following the specification's words, not the source: one pass from left to right that
  remembers the outcome of the last element it retained, and drops a Skipped element
  when that outcome is Failed or Skipped. Nothing has been retained before the first
  element.
\<close>

fun specFilterFrom :: "string option \<Rightarrow> 'd testResultStep list \<Rightarrow> 'd testResultStep list" where
  "specFilterFrom lastKept [] = []"
| "specFilterFrom lastKept (x # xs) =
     (if outcome x = ''Skipped'' \<and> (lastKept = Some ''Failed'' \<or> lastKept = Some ''Skipped'')
      then specFilterFrom lastKept xs
      else x # specFilterFrom (Some (outcome x)) xs)"

definition specFilter :: "'d testResultStep list \<Rightarrow> 'd testResultStep list" where
  "specFilter xs = specFilterFrom None xs"

subsection \<open>A concrete run\<close>

text \<open>
  Stand-ins for the collaborators, to run the store on concrete messages: a tag
  \<open>@ExternalId=v\<close> supplies the external identifier, a tag \<open>@DisplayName=v\<close> the name.
\<close>

fun tagValue :: "string \<Rightarrow> pickleTag list \<Rightarrow> string option" where
  "tagValue key [] = None"
| "tagValue key (t # ts) =
     (if take (length key) (tag_name t) = key then Some (drop (length key) (tag_name t))
      else tagValue key ts)"

fun sampleStatus :: "testStepResultStatus \<Rightarrow> string" where
  "sampleStatus PASSED = ''Passed''"
| "sampleStatus FAILED = ''Failed''"
| "sampleStatus s = ''Skipped''"

definition sampleCollaborators :: "(string, int) collaborators" where
  "sampleCollaborators =
     \<lparr> parseTags = (\<lambda>tags. \<lparr> externalId = tagValue ''@ExternalId='' tags,
                             name = tagValue ''@DisplayName='' tags,
                             links = [] \<rparr>),
       mapStatus = sampleStatus,
       mapDate = (\<lambda>s. s * 1000),
       calculateResultOutcome =
         (\<lambda>os. if ''Failed'' \<in> set os then ''Failed''
                else if ''Passed'' \<in> set os then ''Passed'' else ''Skipped'') \<rparr>"

definition at :: "int \<Rightarrow> timestamp" where
  "at s = \<lparr>seconds = s, nanos = 0\<rparr>"

definition mkPickle :: "string \<Rightarrow> string \<Rightarrow> string list \<Rightarrow> string list \<Rightarrow> pickle" where
  "mkPickle i n stepIds tagNames =
     \<lparr> p_id = i, p_name = n,
       p_steps = map (\<lambda>s. \<lparr>ps_id = s, ps_text = s\<rparr>) stepIds,
       p_tags = map (\<lambda>t. \<lparr>tag_name = t, tag_astNodeId = ''0''\<rparr>) tagNames \<rparr>"

definition mkCase :: "string \<Rightarrow> string \<Rightarrow> string list \<Rightarrow> testCase" where
  "mkCase i pid stepIds =
     \<lparr> tc_id = i, tc_pickleId = pid,
       tc_testSteps = map (\<lambda>s. \<lparr>ts_id = ''t-'' @ s, ts_pickleStepId = Some s\<rparr>) stepIds \<rparr>"

definition stepEvents :: "string \<Rightarrow> string \<Rightarrow> testStepResultStatus \<Rightarrow> call list" where
  "stepEvents sid s status =
     [ SaveTestStepStarted
         \<lparr>tss_testCaseStartedId = sid, tss_testStepId = ''t-'' @ s, tss_timestamp = at 0\<rparr>,
       SaveTestStepFinished
         \<lparr>tsf_testCaseStartedId = sid, tsf_testStepId = ''t-'' @ s,
          tsf_testStepResult = \<lparr>tsr_duration = at 1, tsr_status = status, tsr_message = None\<rparr>,
          tsf_timestamp = at 1\<rparr> ]"

text \<open>Two scenarios, each run once: the first from second 10 to 15, the second from
  second 100 to 130.\<close>

definition twoCases :: "call list" where
  "twoCases =
     [ SavePickle (mkPickle ''p1'' ''first'' [''a''] [''@ExternalId=e1'']),
       SavePickle (mkPickle ''p2'' ''second'' [''b''] [''@ExternalId=e2'', ''@DisplayName=X'']),
       SaveTestCase (mkCase ''c1'' ''p1'' [''a'']),
       SaveTestCase (mkCase ''c2'' ''p2'' [''b'']),
       SaveTestCaseStarted \<lparr>tcs_id = ''s1'', tcs_testCaseId = ''c1'', tcs_timestamp = at 10\<rparr> ]
     @ stepEvents ''s1'' ''a'' PASSED @
     [ SaveTestCaseFinished \<lparr>tcf_testCaseStartedId = ''s1'', tcf_timestamp = at 15\<rparr>,
       SaveTestCaseStarted \<lparr>tcs_id = ''s2'', tcs_testCaseId = ''c2'', tcs_timestamp = at 100\<rparr> ]
     @ stepEvents ''s2'' ''b'' PASSED @
     [ SaveTestCaseFinished \<lparr>tcf_testCaseStartedId = ''s2'', tcf_timestamp = at 130\<rparr> ]"

definition twoCasesStore :: "string storage" where
  "twoCasesStore = run sampleCollaborators twoCases (newStorage (\<lambda>a. []))"

text \<open>One scenario of six steps with the statuses passed, failed, skipped, skipped,
  passed, skipped.\<close>

definition sixSteps :: "call list" where
  "sixSteps =
     [ SavePickle (mkPickle ''p'' ''six'' [''1'', ''2'', ''3'', ''4'', ''5'', ''6'']
                     [''@ExternalId=e'']),
       SaveTestCase (mkCase ''c'' ''p'' [''1'', ''2'', ''3'', ''4'', ''5'', ''6'']),
       SaveTestCaseStarted \<lparr>tcs_id = ''s'', tcs_testCaseId = ''c'', tcs_timestamp = at 0\<rparr> ]
     @ stepEvents ''s'' ''1'' PASSED @ stepEvents ''s'' ''2'' FAILED
     @ stepEvents ''s'' ''3'' SKIPPED @ stepEvents ''s'' ''4'' SKIPPED
     @ stepEvents ''s'' ''5'' PASSED @ stepEvents ''s'' ''6'' SKIPPED @
     [ SaveTestCaseFinished \<lparr>tcf_testCaseStartedId = ''s'', tcf_timestamp = at 6\<rparr> ]"

definition sixStepsStore :: "string storage" where
  "sixStepsStore = run sampleCollaborators sixSteps (newStorage (\<lambda>a. []))"

text \<open>A store that has no external identifier for its only scenario.\<close>

definition untaggedStore :: "string storage" where
  "untaggedStore =
     run sampleCollaborators
       [ SavePickle (mkPickle ''p'' ''plain'' [] [''@smoke'']),
         SaveTestCase (mkCase ''c'' ''p'' []) ]
       (newStorage (\<lambda>a. []))"

text \<open>A store with one message, one array of links and one attachment under \<open>c1\<close>, and
  calls that add to each of them.\<close>

definition callerArrays :: "ref \<Rightarrow> string list" where
  "callerArrays a = (if a = 0 then [''l0''] else if a = 1 then [''l1''] else [])"

definition accumulatedStore :: "string storage" where
  "accumulatedStore =
     run sampleCollaborators
       [AddMessage ''c1'' ''a'', AddLinks ''c1'' 0, AddAttachment ''c1'' ''x'']
       (newStorage callerArrays)"

definition moreCalls :: "call list" where
  "moreCalls =
     [ AddMessage ''c1'' ''b'', AddLinks ''c1'' 1, AddAttachment ''c1'' ''y'',
       GetTestResult ''c1'', SavePickle (mkPickle ''p'' ''plain'' [] []), AddLinks ''c2'' 0,
       AddLinks ''c1'' 0 ]"

subsection \<open>Auxiliary notions of the proofs\<close>

text \<open>The filter of the source as a recursion that carries the outcome of the element
  just before the current one in the array being filtered.\<close>

fun rawFilterFrom :: "string option \<Rightarrow> 'd testResultStep list \<Rightarrow> 'd testResultStep list" where
  "rawFilterFrom prev [] = []"
| "rawFilterFrom prev (x # xs) =
     (if outcome x = ''Skipped'' \<and> (prev = Some ''Failed'' \<or> prev = Some ''Skipped'')
      then rawFilterFrom (Some (outcome x)) xs
      else x # rawFilterFrom (Some (outcome x)) xs)"

definition before :: "'d testResultStep list \<Rightarrow> nat \<Rightarrow> string option" where
  "before arr k = (if k = 0 then None else Some (outcome (arr ! (k - 1))))"

text \<open>Nothing is lost between two stores: the invariant of every call.\<close>

definition noLoss :: "'l storage \<Rightarrow> 'l storage \<Rightarrow> bool" where
  "noLoss st st' \<longleftrightarrow>
     grownFrom (messages st) (messages st') \<and>
     grownFrom (attachments st) (attachments st') \<and>
     (\<forall>k a. resultLinks st k = Some a \<longrightarrow> resultLinks st' k = Some a) \<and>
     (\<forall>a. prefix (linkArrays st a) (linkArrays st' a))"

section \<open>Properties\<close>

lemmas sample_defs =
  sampleCollaborators_def at_def mkPickle_def mkCase_def stepEvents_def newStorage_def
  savePickle_def saveTestCase_def saveTestCaseStarted_def saveTestCaseFinished_def
  saveTestStepStarted_def saveTestStepFinished_def saveGherkinDocument_def

lemmas query_defs =
  getTestResult_def getStepResult_def getStepMessage_def skipFilter_def keepStep_def
  getAttachments_def

subsection \<open>The cascading-skip filter\<close>

lemma keepStep_before:
  "keepStep arr k \<longleftrightarrow>
     \<not> (outcome (arr ! k) = ''Skipped'' \<and>
        (before arr k = Some ''Failed'' \<or> before arr k = Some ''Skipped''))"
  by (auto simp: keepStep_def before_def Let_def)

lemma filter_from:
  "k \<le> length arr \<Longrightarrow>
   map (\<lambda>i. arr ! i) (filter (keepStep arr) [k..<length arr])
     = rawFilterFrom (before arr k) (drop k arr)"
proof (induction "length arr - k" arbitrary: k)
  case 0
  then show ?case by simp
next
  case (Suc n)
  then have lt: "k < length arr" by simp
  have ih: "map (\<lambda>i. arr ! i) (filter (keepStep arr) [Suc k..<length arr])
            = rawFilterFrom (before arr (Suc k)) (drop (Suc k) arr)"
    using Suc lt by (intro Suc.hyps(1)) simp_all
  have b: "before arr (Suc k) = Some (outcome (arr ! k))" by (simp add: before_def)
  have u: "[k..<length arr] = k # [Suc k..<length arr]" using lt by (simp add: upt_conv_Cons)
  have d: "drop k arr = arr ! k # drop (Suc k) arr" using lt by (simp add: Cons_nth_drop_Suc)
  show ?case
    unfolding u d using ih b by (simp add: keepStep_before)
qed

lemma skipFilter_raw: "skipFilter arr = rawFilterFrom None arr"
  using filter_from [of 0 arr] by (simp add: skipFilter_def before_def)

text \<open>
  The two passes agree as long as the element before the current one and the last
  retained one are the same, or the former is a dropped Skipped and the latter is what
  made it drop.
\<close>

lemma raw_spec:
  "p = q \<or> (p = Some ''Skipped'' \<and> (q = Some ''Failed'' \<or> q = Some ''Skipped'')) \<Longrightarrow>
   rawFilterFrom p xs = specFilterFrom q xs"
proof (induction xs arbitrary: p q)
  case Nil
  then show ?case by simp
next
  case (Cons x xs)
  show ?case
  proof (cases "outcome x = ''Skipped'' \<and> (q = Some ''Failed'' \<or> q = Some ''Skipped'')")
    case True
    then have dropRaw: "p = Some ''Failed'' \<or> p = Some ''Skipped''" using Cons.prems by auto
    have "rawFilterFrom (Some (outcome x)) xs = specFilterFrom q xs"
      using True by (intro Cons.IH) auto
    then show ?thesis using True dropRaw by simp
  next
    case False
    then have keepRaw:
      "\<not> (outcome x = ''Skipped'' \<and> (p = Some ''Failed'' \<or> p = Some ''Skipped''))"
      using Cons.prems by auto
    have "rawFilterFrom (Some (outcome x)) xs = specFilterFrom (Some (outcome x)) xs"
      by (intro Cons.IH) simp
    then show ?thesis using False keepRaw by auto
  qed
qed

text \<open>
  C3. For every sequence of step results, the filter of \<open>getTestResult\<close>, which looks at
  the element just before the current one in the array being filtered, retains the same
  sequence as the pass of the specification, which looks at the last element retained.
\<close>

theorem skipFilter_eq_specFilter: "skipFilter arr = specFilter arr"
  by (simp add: skipFilter_raw specFilter_def raw_spec)

theorem skipFilter_eq_specFilter_witness:
  "skipFilter
     [\<lparr>title = ''1'', startedOn = 0::int, duration = 1, completedOn = 1, outcome = ''Failed''\<rparr>,
      \<lparr>title = ''2'', startedOn = 1, duration = 1, completedOn = 2, outcome = ''Skipped''\<rparr>,
      \<lparr>title = ''3'', startedOn = 2, duration = 1, completedOn = 3, outcome = ''Skipped''\<rparr>]
   = [\<lparr>title = ''1'', startedOn = 0::int, duration = 1, completedOn = 1, outcome = ''Failed''\<rparr>]"
  using skipFilter_eq_specFilter
    [of "[\<lparr>title = ''1'', startedOn = 0::int, duration = 1, completedOn = 1, outcome = ''Failed''\<rparr>,
          \<lparr>title = ''2'', startedOn = 1, duration = 1, completedOn = 2, outcome = ''Skipped''\<rparr>,
          \<lparr>title = ''3'', startedOn = 2, duration = 1, completedOn = 3, outcome = ''Skipped''\<rparr>]"]
  by (simp add: specFilter_def)

text \<open>
  C4. When \<open>getTestResult\<close> returns a result for a case whose pickle's steps resolve to
  the outcomes Passed, Failed, Skipped, Skipped, Passed, Skipped, the step results of
  the result have the outcomes Passed, Failed, Passed, Skipped, in that order.
\<close>

theorem getTestResult_six_steps:
  assumes "getTestResult c st testId = Inr res"
    and "find (\<lambda>tc. tc_id tc = testId) (testCases st) = Some tc"
    and "find (\<lambda>p. p_id p = tc_pickleId tc) (pickles st) = Some p"
    and "mapSteps c st tc (p_steps p) = Inr rs"
    and "map outcome rs =
           [''Passed'', ''Failed'', ''Skipped'', ''Skipped'', ''Passed'', ''Skipped'']"
  shows "map outcome (r_stepResults res) = [''Passed'', ''Failed'', ''Passed'', ''Skipped'']"
proof -
  have "r_stepResults res = skipFilter rs"
    using assms(1-4) by (auto simp: getTestResult_def Let_def split: option.splits sum.splits)
  then show ?thesis using assms(5) by (auto simp: skipFilter_raw)
qed

theorem getTestResult_six_steps_witness:
  "map_sum id (map outcome \<circ> r_stepResults) (getTestResult sampleCollaborators sixStepsStore ''c'')
     = Inr [''Passed'', ''Failed'', ''Passed'', ''Skipped'']"
proof -
  let ?tc = "mkCase ''c'' ''p'' [''1'', ''2'', ''3'', ''4'', ''5'', ''6'']"
  let ?p = "mkPickle ''p'' ''six'' [''1'', ''2'', ''3'', ''4'', ''5'', ''6''] [''@ExternalId=e'']"
  have "\<exists>res. getTestResult sampleCollaborators sixStepsStore ''c'' = Inr res"
    unfolding sixStepsStore_def sixSteps_def by (simp add: sample_defs query_defs)
  then obtain res where res: "getTestResult sampleCollaborators sixStepsStore ''c'' = Inr res"
    by blast
  have tc: "find (\<lambda>tc. tc_id tc = ''c'') (testCases sixStepsStore) = Some ?tc"
    unfolding sixStepsStore_def sixSteps_def by (simp add: sample_defs)
  have p: "find (\<lambda>p. p_id p = tc_pickleId ?tc) (pickles sixStepsStore) = Some ?p"
    unfolding sixStepsStore_def sixSteps_def by (simp add: sample_defs)
  have "\<exists>rs. mapSteps sampleCollaborators sixStepsStore ?tc (p_steps ?p) = Inr rs \<and>
          map outcome rs =
            [''Passed'', ''Failed'', ''Skipped'', ''Skipped'', ''Passed'', ''Skipped'']"
    unfolding sixStepsStore_def sixSteps_def by (simp add: sample_defs query_defs)
  then obtain rs where rs: "mapSteps sampleCollaborators sixStepsStore ?tc (p_steps ?p) = Inr rs"
    and os: "map outcome rs =
               [''Passed'', ''Failed'', ''Skipped'', ''Skipped'', ''Passed'', ''Skipped'']"
    by (elim exE conjE)
  from getTestResult_six_steps [OF res tc p rs os] res show ?thesis by simp
qed


subsection \<open>Resolution check\<close>

lemma isResolvedLoop_iff:
  "isResolvedLoop c tc ps \<longleftrightarrow>
     (\<exists>p \<in> set ps. p_id p = tc_pickleId tc \<and> externalId (parseTags c (p_tags p)) \<noteq> None)"
  by (induction ps) (auto simp: Let_def)

text \<open>
  C5. For every store and every test case, \<open>isResolvedTestCase\<close> returns true exactly
  when some stored pickle has the identifier the case refers to and tags whose parse has
  a defined external identifier.
\<close>

theorem isResolvedTestCase_iff:
  "isResolvedTestCase c st tc \<longleftrightarrow>
     (\<exists>p \<in> set (pickles st).
        p_id p = tc_pickleId tc \<and> externalId (parseTags c (p_tags p)) \<noteq> None)"
  by (simp add: isResolvedTestCase_def isResolvedLoop_iff)

theorem isResolvedTestCase_iff_witness:
  "isResolvedTestCase sampleCollaborators twoCasesStore (mkCase ''c2'' ''p2'' [''b'']) \<and>
   \<not> isResolvedTestCase sampleCollaborators untaggedStore (mkCase ''c'' ''p'' [])"
proof -
  have yes: "\<exists>p \<in> set (pickles twoCasesStore).
               p_id p = tc_pickleId (mkCase ''c2'' ''p2'' [''b'']) \<and>
               externalId (parseTags sampleCollaborators (p_tags p)) \<noteq> None"
    unfolding twoCasesStore_def twoCases_def by (simp add: sample_defs)
  have no: "\<not> (\<exists>p \<in> set (pickles untaggedStore).
               p_id p = tc_pickleId (mkCase ''c'' ''p'' []) \<and>
               externalId (parseTags sampleCollaborators (p_tags p)) \<noteq> None)"
    unfolding untaggedStore_def by (simp add: sample_defs)
  have r1: "isResolvedTestCase sampleCollaborators twoCasesStore (mkCase ''c2'' ''p2'' [''b''])"
    unfolding isResolvedTestCase_iff by (rule yes)
  have r2: "\<not> isResolvedTestCase sampleCollaborators untaggedStore (mkCase ''c'' ''p'' [])"
    unfolding isResolvedTestCase_iff by (rule no)
  from r1 r2 show ?thesis by (rule conjI)
qed

subsection \<open>Errors of the assembly\<close>

text \<open>
  C9. For every store, \<open>getTestResult\<close> with an identifier that no stored case has throws
  \<open>'TestCase not found'\<close> and returns no result.
\<close>

theorem getTestResult_unknown_case:
  assumes "\<forall>tc \<in> set (testCases st). tc_id tc \<noteq> testId"
  shows "getTestResult c st testId = Inl TestCaseNotFound"
proof -
  from assms have "find (\<lambda>tc. tc_id tc = testId) (testCases st) = None"
    by (simp add: find_None_iff)
  then show ?thesis by (simp add: getTestResult_def)
qed

theorem getTestResult_unknown_case_witness:
  "getTestResult sampleCollaborators twoCasesStore ''c3'' = Inl TestCaseNotFound"
proof -
  have h: "\<forall>tc \<in> set (testCases twoCasesStore). tc_id tc \<noteq> ''c3''"
    unfolding twoCasesStore_def twoCases_def by (simp add: sample_defs)
  show ?thesis by (rule getTestResult_unknown_case [OF h])
qed

text \<open>
  C6. For every case that is found in the store and whose pickle is found, if the parse
  of the pickle's tags has no external identifier, \<open>getTestResult\<close> throws
  \<open>'External ID is not provided'\<close> and returns no result.
\<close>

theorem getTestResult_missing_externalId:
  assumes "find (\<lambda>tc. tc_id tc = testId) (testCases st) = Some tc"
    and "find (\<lambda>p. p_id p = tc_pickleId tc) (pickles st) = Some p"
    and "externalId (parseTags c (p_tags p)) = None"
  shows "getTestResult c st testId = Inl ExternalIdNotProvided"
  using assms by (simp add: getTestResult_def)

theorem getTestResult_missing_externalId_witness:
  "getTestResult sampleCollaborators untaggedStore ''c'' = Inl ExternalIdNotProvided"
proof -
  let ?tc = "mkCase ''c'' ''p'' []"
  let ?p = "mkPickle ''p'' ''plain'' [] [''@smoke'']"
  have tc: "find (\<lambda>tc. tc_id tc = ''c'') (testCases untaggedStore) = Some ?tc"
    unfolding untaggedStore_def by (simp add: sample_defs)
  have p: "find (\<lambda>p. p_id p = tc_pickleId ?tc) (pickles untaggedStore) = Some ?p"
    unfolding untaggedStore_def by (simp add: sample_defs)
  have e: "externalId (parseTags sampleCollaborators (p_tags ?p)) = None"
    by (simp add: sample_defs)
  show ?thesis by (rule getTestResult_missing_externalId [OF tc p e])
qed

subsection \<open>The assembled record\<close>

text \<open>
  C7. When \<open>getTestResult\<close> returns a result for a case, and \<open>p\<close> is the pickle it found
  for the case: if the tags of \<open>p\<close> supply a name \<open>X\<close>, the display name of the result is
  \<open>X\<close>, whatever the name of \<open>p\<close>; if they supply none, it is the name of \<open>p\<close>.
\<close>

theorem getTestResult_displayName:
  assumes "getTestResult c st testId = Inr res"
    and "find (\<lambda>tc. tc_id tc = testId) (testCases st) = Some tc"
    and "find (\<lambda>p. p_id p = tc_pickleId tc) (pickles st) = Some p"
  shows "(name (parseTags c (p_tags p)) = Some X \<longrightarrow> r_displayName res = X) \<and>
         (name (parseTags c (p_tags p)) = None \<longrightarrow> r_displayName res = p_name p)"
  using assms
  by (auto simp: getTestResult_def Let_def split: option.splits sum.splits)

theorem getTestResult_displayName_witness:
  "map_sum id r_displayName (getTestResult sampleCollaborators twoCasesStore ''c2'') = Inr ''X'' \<and>
   map_sum id r_displayName (getTestResult sampleCollaborators twoCasesStore ''c1'') = Inr ''first''"
proof -
  let ?c = sampleCollaborators
  let ?tc1 = "mkCase ''c1'' ''p1'' [''a'']" and ?tc2 = "mkCase ''c2'' ''p2'' [''b'']"
  let ?p1 = "mkPickle ''p1'' ''first'' [''a''] [''@ExternalId=e1'']"
  let ?p2 = "mkPickle ''p2'' ''second'' [''b''] [''@ExternalId=e2'', ''@DisplayName=X'']"
  have "\<exists>res. getTestResult ?c twoCasesStore ''c1'' = Inr res"
    unfolding twoCasesStore_def twoCases_def by (simp add: sample_defs query_defs)
  then obtain r1 where r1: "getTestResult ?c twoCasesStore ''c1'' = Inr r1"
    by (elim exE)
  have "\<exists>res. getTestResult ?c twoCasesStore ''c2'' = Inr res"
    unfolding twoCasesStore_def twoCases_def by (simp add: sample_defs query_defs)
  then obtain r2 where r2: "getTestResult ?c twoCasesStore ''c2'' = Inr r2"
    by (elim exE)
  have tc1: "find (\<lambda>tc. tc_id tc = ''c1'') (testCases twoCasesStore) = Some ?tc1"
    unfolding twoCasesStore_def twoCases_def by (simp add: sample_defs)
  have tc2: "find (\<lambda>tc. tc_id tc = ''c2'') (testCases twoCasesStore) = Some ?tc2"
    unfolding twoCasesStore_def twoCases_def by (simp add: sample_defs)
  have p1: "find (\<lambda>p. p_id p = tc_pickleId ?tc1) (pickles twoCasesStore) = Some ?p1"
    unfolding twoCasesStore_def twoCases_def by (simp add: sample_defs)
  have p2: "find (\<lambda>p. p_id p = tc_pickleId ?tc2) (pickles twoCasesStore) = Some ?p2"
    unfolding twoCasesStore_def twoCases_def by (simp add: sample_defs)
  have n1: "name (parseTags ?c (p_tags ?p1)) = None" and "p_name ?p1 = ''first''"
    by (simp_all add: sample_defs)
  moreover have n2: "name (parseTags ?c (p_tags ?p2)) = Some ''X''"
    by (simp add: sample_defs)
  ultimately have "r_displayName r1 = ''first''" and "r_displayName r2 = ''X''"
    using getTestResult_displayName [OF r1 tc1 p1, of "''X''"]
      getTestResult_displayName [OF r2 tc2 p2, of "''X''"]
    by simp_all
  with r1 r2 show ?thesis by simp
qed

text \<open>
  C1. The specification asks that \<open>getTestResult\<close> take the \<open>TestCaseStarted\<close> of the
  queried case and return, as duration, the finished timestamp minus the started one of
  that pair. The source does otherwise. In the store of the two scenarios the case \<open>c2\<close>
  started at second 100 and finished at second 130, yet the duration returned for \<open>c2\<close>
  is 5, that of the first stored pair (10 to 15): the lookup compares each candidate
  with itself and so takes the first \<open>TestCaseStarted\<close> stored.
\<close>

theorem getTestResult_duration_of_first_pair:
  "find (\<lambda>s. tcs_testCaseId s = ''c2'') (testCasesStarted twoCasesStore)
     = Some \<lparr>tcs_id = ''s2'', tcs_testCaseId = ''c2'', tcs_timestamp = at 100\<rparr> \<and>
   find (\<lambda>f. tcf_testCaseStartedId f = ''s2'') (testCasesFinished twoCasesStore)
     = Some \<lparr>tcf_testCaseStartedId = ''s2'', tcf_timestamp = at 130\<rparr> \<and>
   map_sum id r_duration (getTestResult sampleCollaborators twoCasesStore ''c2'') = Inr 5"
  unfolding twoCasesStore_def twoCases_def
  by (simp add: sample_defs query_defs)

subsection \<open>Accumulators\<close>

text \<open>
  C2. The specification asks that two calls of \<open>addAttachment\<close> on one case leave two
  attachment references for \<open>getAttachments\<close>, in the order of the calls. The source
  does otherwise: on a new store \<open>getAttachments\<close> then returns one reference, the
  first, since the second call leaves the stored array as it was.
\<close>

theorem addAttachment_twice_keeps_first:
  "getAttachments (addAttachment (addAttachment (newStorage h) ''c1'' ''a1'') ''c1'' ''a2'') ''c1''
     = Some [\<lparr>att_id = ''a1''\<rparr>]"
  by (simp add: getAttachments_def addAttachment_def newStorage_def)

text \<open>
  Each query as a method returns the value of the function of the same name and the
  store it was given. For the loops this is an induction over the steps.
\<close>

lemma isResolvedLoop_st_eq: "isResolvedLoop_st c tc ps st = (isResolvedLoop c tc ps, st)"
  by (induction ps) (simp_all add: Let_def)

lemma isResolvedTestCase_st_eq: "isResolvedTestCase_st c tc st = (isResolvedTestCase c st tc, st)"
  by (simp add: isResolvedTestCase_st_def isResolvedTestCase_def isResolvedLoop_st_eq)

lemma getStepResult_st_eq: "getStepResult_st c s tc st = (getStepResult c st s tc, st)"
  by (simp add: getStepResult_st_def getStepResult_def split: option.splits)

lemma getStepMessage_st_eq: "getStepMessage_st s tc st = (getStepMessage st s tc, st)"
  by (simp add: getStepMessage_st_def getStepMessage_def split: option.splits)

lemma getAttachments_st_eq: "getAttachments_st k st = (getAttachments st k, st)"
  by (simp add: getAttachments_st_def getAttachments_def)

lemma mapSteps_st_eq: "mapSteps_st c tc ss st = (mapSteps c st tc ss, st)"
proof (induction ss)
  case Nil
  show ?case by simp
next
  case (Cons s ss)
  then show ?case by (simp add: getStepResult_st_eq split: sum.splits)
qed

lemma stepMessages_st_eq: "stepMessages_st tc ss acc st = (stepMessages st tc ss acc, st)"
proof (induction ss arbitrary: acc)
  case Nil
  show ?case by simp
next
  case (Cons s ss)
  then show ?case by (simp add: getStepMessage_st_eq split: sum.splits option.splits)
qed

lemma getTestResult_st_eq: "getTestResult_st c k st = (getTestResult c st k, st)"
  by (simp add: getTestResult_st_def getTestResult_def Let_def mapSteps_st_eq
        stepMessages_st_eq getAttachments_st_eq split: option.splits sum.splits)

lemmas query_st_eqs =
  isResolvedTestCase_st_eq getTestResult_st_eq getStepResult_st_eq getStepMessage_st_eq
  getAttachments_st_eq

lemma grownFrom_refl: "grownFrom m m"
  by (simp add: grownFrom_def)

lemma grownFrom_trans: "grownFrom m m' \<Longrightarrow> grownFrom m' m'' \<Longrightarrow> grownFrom m m''"
  unfolding grownFrom_def by (meson prefix_order.trans)

lemma noLoss_refl: "noLoss st st"
  by (simp add: noLoss_def grownFrom_refl)

lemma noLoss_trans: "noLoss a b \<Longrightarrow> noLoss b c \<Longrightarrow> noLoss a c"
  unfolding noLoss_def by (meson grownFrom_trans prefix_order.trans)

lemma noLoss_addMessage: "noLoss st (addMessage st k m)"
  by (auto simp: noLoss_def addMessage_def grownFrom_def split: option.splits)

lemma noLoss_addLinks: "noLoss st (addLinks st k ls)"
  by (auto simp: noLoss_def addLinks_def grownFrom_def split: option.splits)

lemma noLoss_addAttachment: "noLoss st (addAttachment st k a)"
  by (auto simp: noLoss_def addAttachment_def grownFrom_def split: option.splits)

lemma noLoss_step: "noLoss st (snd (step c x st))"
proof (cases x)
  case (AddMessage k m)
  then show ?thesis by (simp add: noLoss_addMessage)
next
  case (AddLinks k ls)
  then show ?thesis by (simp add: noLoss_addLinks)
next
  case (AddAttachment k a)
  then show ?thesis by (simp add: noLoss_addAttachment)
qed (simp_all add: query_st_eqs noLoss_def grownFrom_refl saveGherkinDocument_def savePickle_def
       saveTestCase_def saveTestCaseStarted_def saveTestCaseFinished_def
       saveTestStepStarted_def saveTestStepFinished_def)

lemma noLoss_run: "noLoss st (run c xs st)"
proof (induction xs arbitrary: st)
  case Nil
  show ?case by (simp add: noLoss_refl)
next
  case (Cons x xs)
  have "noLoss st (snd (step c x st))" by (rule noLoss_step)
  moreover have "noLoss (snd (step c x st)) (run c xs (snd (step c x st)))" by (rule Cons.IH)
  ultimately show ?case by (simp add: noLoss_trans)
qed

lemma noLoss_linksOf: "noLoss st st' \<Longrightarrow> grownFrom (linksOf st) (linksOf st')"
  by (auto simp: noLoss_def grownFrom_def linksOf_def)

text \<open>
  C8. For every sequence of calls of the store's methods and every case identifier, what
  \<open>messages\<close>, \<open>resultLinks\<close> and \<open>attachments\<close> hold under the identifier only grows: an
  entry that was there is still there, and the sequence it held before the calls is a
  prefix of the sequence it holds after them.
\<close>

theorem accumulators_only_grow:
  "grownFrom (messages st) (messages (run c xs st)) \<and>
   grownFrom (linksOf st) (linksOf (run c xs st)) \<and>
   grownFrom (attachments st) (attachments (run c xs st))"
  using noLoss_run [of st c xs] noLoss_linksOf [of st "run c xs st"]
  by (simp add: noLoss_def)

theorem accumulators_only_grow_witness:
  "messages accumulatedStore ''c1'' = Some [''a''] \<and>
   linksOf accumulatedStore ''c1'' = Some [''l0''] \<and>
   attachments accumulatedStore ''c1'' = Some [\<lparr>att_id = ''x''\<rparr>] \<and>
   (\<exists>ys. messages (run sampleCollaborators moreCalls accumulatedStore) ''c1'' = Some ys \<and>
         prefix [''a''] ys) \<and>
   (\<exists>ys. linksOf (run sampleCollaborators moreCalls accumulatedStore) ''c1'' = Some ys \<and>
         prefix [''l0''] ys) \<and>
   (\<exists>ys. attachments (run sampleCollaborators moreCalls accumulatedStore) ''c1'' = Some ys \<and>
         prefix [\<lparr>att_id = ''x''\<rparr>] ys)"
proof -
  have m: "messages accumulatedStore ''c1'' = Some [''a'']"
    by (simp add: accumulatedStore_def addMessage_def addLinks_def addAttachment_def newStorage_def)
  have l: "linksOf accumulatedStore ''c1'' = Some [''l0'']"
    by (simp add: accumulatedStore_def addMessage_def addLinks_def addAttachment_def newStorage_def
          linksOf_def callerArrays_def)
  have a: "attachments accumulatedStore ''c1'' = Some [\<lparr>att_id = ''x''\<rparr>]"
    by (simp add: accumulatedStore_def addMessage_def addLinks_def addAttachment_def newStorage_def)
  from accumulators_only_grow [of accumulatedStore sampleCollaborators moreCalls] m l a
  show ?thesis unfolding grownFrom_def by (intro conjI) (assumption | metis)+
qed

subsection \<open>Queries\<close>

text \<open>
  C10. A call of \<open>isResolvedTestCase\<close>, \<open>getTestResult\<close>, \<open>getStepResult\<close>, \<open>getStepMessage\<close>
  or \<open>getAttachments\<close> leaves the store as it was, every collection of it, whether the
  call returns or throws.
\<close>

theorem queries_leave_store:
  "snd (step c (IsResolvedTestCase tc) st) = st \<and>
   snd (step c (GetTestResult k) st) = st \<and>
   snd (step c (GetStepResult s tc) st) = st \<and>
   snd (step c (GetStepMessage s tc) st) = st \<and>
   snd (step c (GetAttachments k) st) = st"
  by (simp add: query_st_eqs)

theorem queries_leave_store_witness:
  "fst (step sampleCollaborators (GetTestResult ''c3'') twoCasesStore) = Thrown TestCaseNotFound \<and>
   snd (step sampleCollaborators (GetTestResult ''c3'') twoCasesStore) = twoCasesStore \<and>
   map_sum id r_displayName (fst (getTestResult_st sampleCollaborators ''c1'' twoCasesStore))
     = Inr ''first'' \<and>
   snd (step sampleCollaborators (GetTestResult ''c1'') twoCasesStore) = twoCasesStore"
proof -
  have f: "fst (step sampleCollaborators (GetTestResult ''c3'') twoCasesStore)
             = Thrown TestCaseNotFound"
    unfolding twoCasesStore_def twoCases_def
    by (simp add: sample_defs getTestResult_st_def orThrown_def)
  have s: "snd (step sampleCollaborators (GetTestResult ''c3'') twoCasesStore) = twoCasesStore"
    by (rule queries_leave_store [THEN conjunct2, THEN conjunct1])
  have f': "map_sum id r_displayName (fst (getTestResult_st sampleCollaborators ''c1'' twoCasesStore))
              = Inr ''first''"
    unfolding twoCasesStore_def twoCases_def
    by (simp add: sample_defs getTestResult_st_def getStepResult_st_def getStepMessage_st_def
          getAttachments_st_def skipFilter_def keepStep_def)
  have s': "snd (step sampleCollaborators (GetTestResult ''c1'') twoCasesStore) = twoCasesStore"
    by (rule queries_leave_store [THEN conjunct2, THEN conjunct1])
  from f s f' s' show ?thesis by (intro conjI)
qed

end
